theory Spec2Isabelle
  imports Complex_Main "HOL-Library.Word" "HOL-Library.Product_Lexorder"
begin

section \<open>Data model\<close>

text \<open>
  The types of \<^verbatim>\<open>src/types/index.ts\<close> that the engines read. JavaScript numbers are
  modelled as reals; the quality checks, whose divisions can be by zero, use the type
  \<open>jsnum\<close> below, which adds the IEEE special values. The fields \<^verbatim>\<open>x\<close> and \<^verbatim>\<open>y\<close> of a point are
  called \<open>px\<close> and \<open>py\<close>, and fields whose names occur in several interfaces carry a
  short prefix or suffix.
\<close>

record Point =
  px :: real
  py :: real

datatype MarkerType = Ruler | Circle | Qr | Grid

record CalibrationData =
  detected :: bool
  pixelsPerCm :: real
  confidence :: real
  markerType :: MarkerType
  referencePoints :: "Point list"

text \<open>An \<^verbatim>\<open>ImageData\<close>: a row-major RGBA byte buffer (\<^verbatim>\<open>Uint8ClampedArray\<close>).\<close>

record ImageData =
  data :: "8 word list"
  width :: nat
  height :: nat

text \<open>The browser only builds an \<^verbatim>\<open>ImageData\<close> whose buffer holds four bytes per pixel.\<close>

definition wf_image :: "ImageData \<Rightarrow> bool" where
  "wf_image img \<longleftrightarrow> length (data img) = 4 * (width img * height img)"

record SegmentationResult =
  mask :: ImageData
  contour :: "Point list"
  segConfidence :: real

record WoundMeasurement =
  area :: real
  length_cm :: real
  width_cm :: real
  perimeter :: real

datatype error = InvalidCalibration

section \<open>Measurement engine\<close>

text \<open>\<^verbatim>\<open>Math.round\<close> rounds to the nearest integer, a half towards plus infinity.\<close>

definition math_round :: "real \<Rightarrow> int" where
  "math_round v = \<lfloor>v + 1 / 2\<rfloor>"

text \<open>\<^verbatim>\<open>round(value, decimals)\<close> of the measurement engine.\<close>

definition round_num :: "real \<Rightarrow> nat \<Rightarrow> real" where
  "round_num v decimals =
     (let multiplier = 10 ^ decimals
      in real_of_int (math_round (v * multiplier)) / multiplier)"

text \<open>
  \<^verbatim>\<open>calculateAreaFromMask\<close>: the number of pixels whose red channel exceeds 127. A read
  past the end of the buffer yields \<^verbatim>\<open>undefined\<close>, which does not compare greater.
\<close>

definition calculateAreaFromMask :: "ImageData \<Rightarrow> nat" where
  "calculateAreaFromMask m =
     length (filter (\<lambda>i. i * 4 < length (data m) \<and> 127 < unat (data m ! (i * 4)))
                    [0 ..< width m * height m])"

definition calculatePerimeter :: "Point list \<Rightarrow> real" where
  "calculatePerimeter c =
     (if length c < 3 then 0
      else (\<Sum>i \<leftarrow> [0 ..< length c].
              let current = c ! i;
                  next = c ! ((i + 1) mod length c);
                  dx = px next - px current;
                  dy = py next - py current
              in sqrt (dx * dx + dy * dy)))"

text \<open>Cross product of the vectors \<open>p1 \<rightarrow> p2\<close> and \<open>p1 \<rightarrow> p3\<close>.\<close>

definition crossProduct :: "Point \<Rightarrow> Point \<Rightarrow> Point \<Rightarrow> real" where
  "crossProduct p1 p2 p3 =
     (px p2 - px p1) * (py p3 - py p1) - (py p2 - py p1) * (px p3 - px p1)"

text \<open>
  The search for the lowest point: the loop variable \<open>lowest\<close> moves to \<open>i\<close> when
  point \<open>i\<close> is strictly below, or level and strictly to the left.
\<close>

definition lowerThan :: "Point \<Rightarrow> Point \<Rightarrow> bool" where
  "lowerThan p q \<longleftrightarrow> py p < py q \<or> (py p = py q \<and> px p < px q)"

definition findLowest :: "Point list \<Rightarrow> nat" where
  "findLowest points =
     fold (\<lambda>i lowest. if lowerThan (points ! i) (points ! lowest) then i else lowest)
          [1 ..< length points] 0"

text \<open>
  The inner \<^verbatim>\<open>while\<close> loop of the scan. The hull is a stack; the model keeps it
  reversed, with the top of the stack (\<^verbatim>\<open>hull[hull.length - 1]\<close>) at the head.
\<close>

fun popWhile :: "Point \<Rightarrow> Point list \<Rightarrow> Point list" where
  "popWhile p (b # a # st) =
     (if crossProduct a b p \<le> 0 then popWhile p (a # st) else b # a # st)"
| "popWhile p st = st"

definition scanStep :: "Point \<Rightarrow> Point list \<Rightarrow> Point list" where
  "scanStep p st = p # popWhile p st"

text \<open>
  \<^verbatim>\<open>convexHull\<close>. The source sorts \<^verbatim>\<open>sorted.slice(1)\<close>, a fresh copy, by polar angle and
  drops the result, so \<^verbatim>\<open>sorted\<close> itself is only the input with the lowest point swapped
  to the front; the scan runs over that order.
\<close>

definition convexHull :: "Point list \<Rightarrow> Point list" where
  "convexHull points =
     (if length points < 3 then points
      else
        let lowest = findLowest points;
            sorted = (points[0 := points ! lowest])[lowest := points ! 0]
        in rev (fold scanStep (drop 2 sorted) [sorted ! 1, sorted ! 0]))"

text \<open>\<^verbatim>\<open>Math.atan2\<close> on the reals.\<close>

definition atan2 :: "real \<Rightarrow> real \<Rightarrow> real" where
  "atan2 b a =
     (if 0 < a then arctan (b / a)
      else if a < 0 then (if 0 \<le> b then arctan (b / a) + pi else arctan (b / a) - pi)
      else if 0 < b then pi / 2
      else if b < 0 then - pi / 2
      else 0)"

definition rotatePoint :: "Point \<Rightarrow> real \<Rightarrow> Point \<Rightarrow> Point" where
  "rotatePoint point angle center =
     (let dx = px point - px center;
          dy = py point - py center
      in \<lparr>px = px center + dx * cos angle - dy * sin angle,
          py = py center + dx * sin angle + dy * cos angle\<rparr>)"

record Rect =
  rectWidth :: real
  rectHeight :: real
  rectAngle :: real

text \<open>
  One pass of the loop over the hull edges (the parameter is called \<open>hl\<close>).
  \<open>minArea\<close> starts at \<^verbatim>\<open>Infinity\<close>, which is \<open>None\<close> here. The running minima and maxima start at plus and minus infinity, so over
  the non-empty list of rotated points they are the least and greatest coordinate.
\<close>

definition rectStep :: "Point list \<Rightarrow> nat \<Rightarrow> real option \<times> Rect \<Rightarrow> real option \<times> Rect" where
  "rectStep hl i s =
     (let p1 = hl ! i;
          p2 = hl ! ((i + 1) mod length hl);
          angle = atan2 (py p2 - py p1) (px p2 - px p1);
          rotated = map (\<lambda>p. rotatePoint p (- angle) (hl ! 0)) hl;
          minX = Min (set (map px rotated));
          maxX = Max (set (map px rotated));
          minY = Min (set (map py rotated));
          maxY = Max (set (map py rotated));
          w = maxX - minX;
          h = maxY - minY;
          a = w * h
      in if (case fst s of None \<Rightarrow> True | Some minArea \<Rightarrow> a < minArea)
         then (Some a, \<lparr>rectWidth = w, rectHeight = h, rectAngle = angle\<rparr>)
         else s)"

definition minAreaRect :: "Point list \<Rightarrow> Rect" where
  "minAreaRect hl =
     (if length hl < 3 then \<lparr>rectWidth = 0, rectHeight = 0, rectAngle = 0\<rparr>
      else snd (fold (rectStep hl) [0 ..< length hl]
                  (None, \<lparr>rectWidth = 0, rectHeight = 0, rectAngle = 0\<rparr>)))"

text \<open>\<^verbatim>\<open>calculateLengthWidth\<close> returns the pair (length, width).\<close>

definition calculateLengthWidth :: "Point list \<Rightarrow> real \<times> real" where
  "calculateLengthWidth c =
     (if length c < 3 then (0, 0)
      else
        let hl = convexHull c;
            minRect = minAreaRect hl
        in (max (rectWidth minRect) (rectHeight minRect),
            min (rectWidth minRect) (rectHeight minRect)))"

definition calculateMeasurements ::
  "SegmentationResult \<Rightarrow> CalibrationData \<Rightarrow> error + WoundMeasurement" where
  "calculateMeasurements segmentation calibration =
     (if \<not> detected calibration \<or> pixelsPerCm calibration \<le> 0 then Inl InvalidCalibration
      else
        let ppc = pixelsPerCm calibration;
            pixelsPerCmSquared = ppc * ppc;
            areaPixels = calculateAreaFromMask (mask segmentation);
            a = real areaPixels / pixelsPerCmSquared;
            perimeterPixels = calculatePerimeter (contour segmentation);
            p = perimeterPixels / ppc;
            lw = calculateLengthWidth (contour segmentation);
            l = fst lw / ppc;
            w = snd lw / ppc
        in Inr \<lparr>area = round_num a 2, length_cm = round_num l 2,
                width_cm = round_num w 2, perimeter = round_num p 2\<rparr>)"

section \<open>Healing analytics\<close>

text \<open>
  Of a \<^verbatim>\<open>WoundAssessment\<close> the analytics read the identifier, the capture time and the
  measurement. A \<^verbatim>\<open>Date\<close> is its \<^verbatim>\<open>getTime()\<close> value, in milliseconds.
\<close>

record WoundAssessment =
  assessmentId :: string
  capturedAt :: int
  measurement :: WoundMeasurement

record HealingProgress =
  hpAssessmentId :: string
  hpDate :: int
  hpArea :: real
  areaChange :: real
  areaChangePercent :: real
  healingRate :: real
  projectedHealingDate :: "int option"

datatype Trend = Improving | Stable | Worsening

record WoundAnalytics =
  woundId :: string
  initialArea :: real
  currentArea :: real
  totalReduction :: real
  totalReductionPercent :: real
  averageHealingRate :: real
  healingVelocity :: real
  assessmentCount :: nat
  daysSinceOnset :: int
  progressHistory :: "HealingProgress list"
  trend :: Trend

definition msPerDay :: int where
  "msPerDay = 24 * 60 * 60 * 1000"

definition daysBetween :: "int \<Rightarrow> int \<Rightarrow> int" where
  "daysBetween date1 date2 = math_round (real_of_int (date2 - date1) / real_of_int msPerDay)"

text \<open>
  The body of the loop of \<^verbatim>\<open>calculateHealingProgress\<close> for one assessment; \<open>previous\<close>
  is \<open>None\<close> at the first one. The projected date adds whole days to the capture time
  (\<^verbatim>\<open>setDate\<close>), taken here as 86400000 ms each.
\<close>

definition progressEntry :: "WoundAssessment option \<Rightarrow> WoundAssessment \<Rightarrow> HealingProgress" where
  "progressEntry previous current =
     (let currentArea = area (measurement current);
          previousArea = (case previous of None \<Rightarrow> currentArea
                          | Some p \<Rightarrow> area (measurement p));
          change = currentArea - previousArea;
          changePercent = (if 0 < previousArea then (change / previousArea) * 100 else 0);
          rate = (case previous of None \<Rightarrow> 0
                  | Some p \<Rightarrow>
                      let daysDiff = daysBetween (capturedAt p) (capturedAt current)
                      in if 0 < daysDiff then - change / real_of_int daysDiff else 0);
          projected = (if 0 < rate \<and> 0 < currentArea
                       then Some (capturedAt current + \<lceil>currentArea / rate\<rceil> * msPerDay)
                       else None)
      in \<lparr>hpAssessmentId = assessmentId current,
          hpDate = capturedAt current,
          hpArea = currentArea,
          areaChange = round_num change 2,
          areaChangePercent = round_num changePercent 1,
          healingRate = round_num rate 3,
          projectedHealingDate = projected\<rparr>)"

fun progressFrom :: "WoundAssessment option \<Rightarrow> WoundAssessment list \<Rightarrow> HealingProgress list" where
  "progressFrom previous [] = []"
| "progressFrom previous (current # rest) =
     progressEntry previous current # progressFrom (Some current) rest"

text \<open>
  \<^verbatim>\<open>calculateHealingProgress\<close>: the assessments are sorted by capture time
  (\<^verbatim>\<open>Array.prototype.sort\<close> is stable, as \<open>sort_key\<close> is) and walked in that order.
\<close>

definition calculateHealingProgress :: "WoundAssessment list \<Rightarrow> HealingProgress list" where
  "calculateHealingProgress assessments =
     (if length assessments = 0 then []
      else progressFrom None (sort_key capturedAt assessments))"

definition emptyAnalytics :: "string \<Rightarrow> WoundAnalytics" where
  "emptyAnalytics wid =
     \<lparr>woundId = wid, initialArea = 0, currentArea = 0, totalReduction = 0,
      totalReductionPercent = 0, averageHealingRate = 0, healingVelocity = 0,
      assessmentCount = 0, daysSinceOnset = 0, progressHistory = [], trend = Stable\<rparr>"

text \<open>The trend of a history of at least two entries: \<^verbatim>\<open>progress.slice(-3)\<close> averaged.\<close>

definition recentTrend :: "HealingProgress list \<Rightarrow> Trend" where
  "recentTrend progress =
     (let recentProgress = drop (length progress - 3) progress;
          avgChange = fold (\<lambda>p s. s + areaChangePercent p) recentProgress 0
                        / real (length recentProgress)
      in if avgChange < - 5 then Improving
         else if 5 < avgChange then Worsening
         else Stable)"

text \<open>
  \<^verbatim>\<open>calculateWoundAnalytics\<close>; the current time (\<^verbatim>\<open>new Date()\<close>) is the parameter
  \<open>now\<close>.
\<close>

definition calculateWoundAnalytics ::
  "string \<Rightarrow> WoundAssessment list \<Rightarrow> int \<Rightarrow> int \<Rightarrow> WoundAnalytics" where
  "calculateWoundAnalytics wid assessments onset now =
     (let progress = calculateHealingProgress assessments
      in if length progress = 0 then emptyAnalytics wid
         else
           let initial = hpArea (progress ! 0);
               current = hpArea (progress ! (length progress - 1));
               reduction = initial - current;
               reductionPercent = (if 0 < initial then (reduction / initial) * 100 else 0);
               healingRates = map healingRate (filter (\<lambda>p. 0 < healingRate p) progress);
               avgRate = (if 0 < length healingRates
                          then fold (\<lambda>b a. a + b) healingRates 0 / real (length healingRates)
                          else 0);
               velocity = avgRate * 7
           in \<lparr>woundId = wid,
               initialArea = round_num initial 2,
               currentArea = round_num current 2,
               totalReduction = round_num reduction 2,
               totalReductionPercent = round_num reductionPercent 1,
               averageHealingRate = round_num avgRate 3,
               healingVelocity = round_num velocity 2,
               assessmentCount = length assessments,
               daysSinceOnset = daysBetween onset now,
               progressHistory = progress,
               trend = (if 2 \<le> length progress then recentTrend progress else Stable)\<rparr>)"

text \<open>The classification as the specification words it, for any list of progress entries.\<close>

definition trendOfAverage :: "real \<Rightarrow> Trend" where
  "trendOfAverage avg = (if avg < - 5 then Improving else if 5 < avg then Worsening else Stable)"

definition lastUpTo3 :: "'a list \<Rightarrow> 'a list" where
  "lastUpTo3 xs = (if length xs \<le> 3 then xs else drop (length xs - 3) xs)"

definition specTrend :: "HealingProgress list \<Rightarrow> Trend" where
  "specTrend progress =
     trendOfAverage (sum_list (map areaChangePercent (lastUpTo3 progress))
                       / real (length (lastUpTo3 progress)))"

text \<open>Assessments that carry the given areas at the given capture times.\<close>

definition assessmentOf :: "int \<Rightarrow> real \<Rightarrow> WoundAssessment" where
  "assessmentOf t a =
     \<lparr>assessmentId = [], capturedAt = t,
      measurement = \<lparr>area = a, length_cm = 0, width_cm = 0, perimeter = 0\<rparr>\<rparr>"

section \<open>Calibration engine\<close>

text \<open>
  The detectors \<^verbatim>\<open>detectRuler\<close>, \<^verbatim>\<open>detectCircle\<close> and \<^verbatim>\<open>detectGrid\<close> run floating-point
  pixel pipelines (Sobel, Hough, Harris). The selection among their results and the
  scale computations on the values those pipelines hand over are modelled; the pipelines
  themselves are parameters.
\<close>

definition createFailedCalibration :: "MarkerType \<Rightarrow> CalibrationData" where
  "createFailedCalibration mt =
     \<lparr>detected = False, pixelsPerCm = 0, confidence = 0, markerType = mt, referencePoints = []\<rparr>"

text \<open>
  \<^verbatim>\<open>detectCalibration\<close>. The final \<^verbatim>\<open>reduce\<close> has no initial value: it starts from the
  ruler result and keeps the left operand only when its confidence is strictly greater.
\<close>

definition detectCalibration ::
  "(ImageData \<Rightarrow> CalibrationData) \<Rightarrow> (ImageData \<Rightarrow> CalibrationData) \<Rightarrow>
   (ImageData \<Rightarrow> CalibrationData) \<Rightarrow> ImageData \<Rightarrow> CalibrationData" where
  "detectCalibration detectRuler detectCircle detectGrid imageData =
     (let rulerResult = detectRuler imageData
      in if detected rulerResult \<and> 0.8 < confidence rulerResult then rulerResult
         else
           let circleResult = detectCircle imageData
           in if detected circleResult \<and> 0.8 < confidence circleResult then circleResult
              else
                let gridResult = detectGrid imageData
                in if detected gridResult \<and> 0.8 < confidence gridResult then gridResult
                   else fold (\<lambda>b a. if confidence b < confidence a then a else b)
                             [circleResult, gridResult] rulerResult)"

text \<open>The physical marker constants \<^verbatim>\<open>CALIBRATION_SPECS\<close>.\<close>

definition grid_cellSizeCm :: real where "grid_cellSizeCm = 1"
definition grid_minCells :: nat where "grid_minCells = 4"
definition circle_diameterCm :: real where "circle_diameterCm = 2.5"

definition findGridPattern :: "Point list \<Rightarrow> Point list" where
  "findGridPattern corners =
     (if length corners < 4 then []
      else sort_key (\<lambda>p. (px p, py p)) corners)"

text \<open>
  \<^verbatim>\<open>calculateGridCellSize\<close>: the median of the coordinate steps above 5 pixels, and
  \<^verbatim>\<open>|| 0\<close> when there is none.
\<close>

definition gridSpacings :: "Point list \<Rightarrow> real list" where
  "gridSpacings gridPoints =
     concat (map (\<lambda>i. let dx = \<bar>px (gridPoints ! i) - px (gridPoints ! (i - 1))\<bar>;
                            dy = \<bar>py (gridPoints ! i) - py (gridPoints ! (i - 1))\<bar>
                        in (if 5 < dx then [dx] else []) @ (if 5 < dy then [dy] else []))
                 [1 ..< length gridPoints])"

definition calculateGridCellSize :: "Point list \<Rightarrow> real" where
  "calculateGridCellSize gridPoints =
     (let spacings = sort (gridSpacings gridPoints)
      in if length spacings div 2 < length spacings then spacings ! (length spacings div 2)
         else 0)"

definition calculateGridConfidence :: "Point list \<Rightarrow> real" where
  "calculateGridConfidence gridPoints =
     (if length gridPoints < 4 then 0 else min 1 (real (length gridPoints) / 20))"

text \<open>\<^verbatim>\<open>detectGrid\<close>, from the corners that the Harris stage found.\<close>

definition detectGridFrom :: "Point list \<Rightarrow> CalibrationData" where
  "detectGridFrom corners =
     (let gridPoints = findGridPattern corners
      in if length gridPoints < grid_minCells * 4 then createFailedCalibration Grid
         else
           let cellSizePixels = calculateGridCellSize gridPoints
           in \<lparr>detected = True,
               pixelsPerCm = cellSizePixels / grid_cellSizeCm,
               confidence = calculateGridConfidence gridPoints,
               markerType = Grid,
               referencePoints = gridPoints\<rparr>)"

text \<open>
  \<^verbatim>\<open>manualCalibration\<close>; the source tags the result with the marker type ruler. Over the
  reals a square never underflows, whereas in double arithmetic the squares of coordinate
  differences below about 1e-162 are 0; the properties below are stated for points that
  coincide or lie at least one pixel apart, where both agree.
\<close>

definition manualCalibration :: "Point \<Rightarrow> Point \<Rightarrow> real \<Rightarrow> CalibrationData" where
  "manualCalibration point1 point2 distanceCm =
     (let dx = px point2 - px point1;
          dy = py point2 - py point1;
          distancePixels = sqrt (dx * dx + dy * dy)
      in \<lparr>detected = True,
          pixelsPerCm = distancePixels / distanceCm,
          confidence = 1,
          markerType = Ruler,
          referencePoints = [point1, point2]\<rparr>)"

text \<open>The specification's selection rule over the candidates in priority order.\<close>

definition firstAbove :: "CalibrationData list \<Rightarrow> CalibrationData option" where
  "firstAbove rs = find (\<lambda>r. 0.8 < confidence r) rs"

definition highestConfidence :: "CalibrationData list \<Rightarrow> CalibrationData \<Rightarrow> bool" where
  "highestConfidence rs r \<longleftrightarrow> r \<in> set rs \<and> list_all (\<lambda>q. confidence q \<le> confidence r) rs"

section \<open>JavaScript numbers with non-finite values\<close>

text \<open>
  The quality checks divide by counts and averages that can be zero. Their arithmetic is
  modelled on finite reals extended by the IEEE values \<^verbatim>\<open>Infinity\<close>, \<^verbatim>\<open>-Infinity\<close> and
  \<^verbatim>\<open>NaN\<close>. Every zero that reaches a division in these checks is a positive zero.
\<close>

datatype jsnum = Num real | PosInf | NegInf | NaN

fun js_neg :: "jsnum \<Rightarrow> jsnum" where
  "js_neg (Num a) = Num (- a)"
| "js_neg PosInf = NegInf"
| "js_neg NegInf = PosInf"
| "js_neg NaN = NaN"

fun js_add :: "jsnum \<Rightarrow> jsnum \<Rightarrow> jsnum" where
  "js_add (Num a) (Num b) = Num (a + b)"
| "js_add NaN _ = NaN"
| "js_add _ NaN = NaN"
| "js_add PosInf NegInf = NaN"
| "js_add NegInf PosInf = NaN"
| "js_add PosInf _ = PosInf"
| "js_add _ PosInf = PosInf"
| "js_add NegInf _ = NegInf"
| "js_add _ NegInf = NegInf"

definition js_sub :: "jsnum \<Rightarrow> jsnum \<Rightarrow> jsnum" where
  "js_sub a b = js_add a (js_neg b)"

fun js_sign :: "jsnum \<Rightarrow> int" where
  "js_sign (Num a) = (if 0 < a then 1 else if a < 0 then - 1 else 0)"
| "js_sign PosInf = 1"
| "js_sign NegInf = - 1"
| "js_sign NaN = 0"

definition js_inf :: "int \<Rightarrow> jsnum" where
  "js_inf s = (if 0 < s then PosInf else if s < 0 then NegInf else NaN)"

fun js_mul :: "jsnum \<Rightarrow> jsnum \<Rightarrow> jsnum" where
  "js_mul (Num a) (Num b) = Num (a * b)"
| "js_mul NaN _ = NaN"
| "js_mul _ NaN = NaN"
| "js_mul a b = js_inf (js_sign a * js_sign b)"

fun js_div :: "jsnum \<Rightarrow> jsnum \<Rightarrow> jsnum" where
  "js_div (Num a) (Num b) = (if b = 0 then js_inf (js_sign (Num a)) else Num (a / b))"
| "js_div NaN _ = NaN"
| "js_div _ NaN = NaN"
| "js_div (Num a) _ = Num 0"
| "js_div a (Num b) = js_inf (js_sign a * (if b < 0 then - 1 else 1))"
| "js_div _ _ = NaN"

fun js_abs :: "jsnum \<Rightarrow> jsnum" where
  "js_abs (Num a) = Num \<bar>a\<bar>"
| "js_abs NaN = NaN"
| "js_abs _ = PosInf"

fun js_lt :: "jsnum \<Rightarrow> jsnum \<Rightarrow> bool" where
  "js_lt (Num a) (Num b) \<longleftrightarrow> a < b"
| "js_lt NaN _ \<longleftrightarrow> False"
| "js_lt _ NaN \<longleftrightarrow> False"
| "js_lt PosInf _ \<longleftrightarrow> False"
| "js_lt _ PosInf \<longleftrightarrow> True"
| "js_lt _ NegInf \<longleftrightarrow> False"
| "js_lt NegInf _ \<longleftrightarrow> True"

definition js_le :: "jsnum \<Rightarrow> jsnum \<Rightarrow> bool" where
  "js_le a b \<longleftrightarrow> a \<noteq> NaN \<and> b \<noteq> NaN \<and> \<not> js_lt b a"

definition js_gt :: "jsnum \<Rightarrow> jsnum \<Rightarrow> bool" where
  "js_gt a b \<longleftrightarrow> js_lt b a"

definition js_ge :: "jsnum \<Rightarrow> jsnum \<Rightarrow> bool" where
  "js_ge a b \<longleftrightarrow> js_le b a"

text \<open>\<^verbatim>\<open>Math.min\<close>, \<^verbatim>\<open>Math.max\<close> and \<^verbatim>\<open>Math.round\<close>: each returns \<^verbatim>\<open>NaN\<close> on \<^verbatim>\<open>NaN\<close>.\<close>

definition js_min :: "jsnum \<Rightarrow> jsnum \<Rightarrow> jsnum" where
  "js_min a b = (if a = NaN \<or> b = NaN then NaN else if js_lt b a then b else a)"

definition js_max :: "jsnum \<Rightarrow> jsnum \<Rightarrow> jsnum" where
  "js_max a b = (if a = NaN \<or> b = NaN then NaN else if js_lt a b then b else a)"

fun js_round :: "jsnum \<Rightarrow> jsnum" where
  "js_round (Num a) = Num (real_of_int (math_round a))"
| "js_round a = a"

section \<open>Quality check engine\<close>

record QualityThresholds =
  minBlurScore :: real
  minLightingScore :: real
  minCalibrationConfidence :: real
  maxPerspectiveDistortion :: real

definition DEFAULT_THRESHOLDS :: QualityThresholds where
  "DEFAULT_THRESHOLDS =
     \<lparr>minBlurScore = 0.7, minLightingScore = 0.6,
      minCalibrationConfidence = 0.8, maxPerspectiveDistortion = 15\<rparr>"

record BlurResult =
  blurScore :: jsnum
  blurPassed :: bool

record LightingResult =
  lightingScore :: jsnum
  lightingPassed :: bool
  issues :: "string list"

record PerspectiveResult =
  distortion :: jsnum
  corrected :: bool

record CalibrationSummary =
  calDetected :: bool
  calConfidence :: real

record QualityCheck =
  passed :: bool
  blur :: BlurResult
  lighting :: LightingResult
  calibration :: CalibrationSummary
  perspective :: PerspectiveResult

text \<open>The colour channels of pixel \<open>i\<close> of a well-formed image, and its luma.\<close>

definition redAt :: "ImageData \<Rightarrow> nat \<Rightarrow> real" where
  "redAt img i = real (unat (data img ! (i * 4)))"

definition greenAt :: "ImageData \<Rightarrow> nat \<Rightarrow> real" where
  "greenAt img i = real (unat (data img ! (i * 4 + 1)))"

definition blueAt :: "ImageData \<Rightarrow> nat \<Rightarrow> real" where
  "blueAt img i = real (unat (data img ! (i * 4 + 2)))"

definition grayAt :: "ImageData \<Rightarrow> nat \<Rightarrow> real" where
  "grayAt img i = 0.299 * redAt img i + 0.587 * greenAt img i + 0.114 * blueAt img i"

definition kernel :: "real list list" where
  "kernel = [[0, 1, 0], [1, - 4, 1], [0, 1, 0]]"

text \<open>
  The two inner loops of the convolution at the interior pixel \<open>(x, y)\<close>; the offsets
  \<open>ky + 1\<close> and \<open>kx + 1\<close> of the source run over 0, 1, 2 here.
\<close>

definition laplacianAt :: "ImageData \<Rightarrow> nat \<Rightarrow> nat \<Rightarrow> real" where
  "laplacianAt img x y =
     fold (\<lambda>(ky, kx) s. s + grayAt img ((y + ky - 1) * width img + (x + kx - 1))
                               * kernel ! ky ! kx)
          (List.product [0, 1, 2] [0, 1, 2]) 0"

definition laplacian :: "ImageData \<Rightarrow> real list" where
  "laplacian img =
     map (\<lambda>i. let y = i div width img; x = i mod width img
              in if 1 \<le> y \<and> y + 1 < height img \<and> 1 \<le> x \<and> x + 1 < width img
                 then laplacianAt img x y else 0)
         [0 ..< width img * height img]"

text \<open>
  \<^verbatim>\<open>checkBlur\<close>: mean and variance of the non-zero responses; both divisions are by
  \<open>count\<close>, whatever its value.
\<close>

definition checkBlur :: "QualityThresholds \<Rightarrow> ImageData \<Rightarrow> BlurResult" where
  "checkBlur th img =
     (let nonzero = filter (\<lambda>v. v \<noteq> 0) (laplacian img);
          count = length nonzero;
          mean = js_div (Num (fold (\<lambda>v m. m + v) nonzero 0)) (Num (real count));
          variance = js_div (fold (\<lambda>v acc. js_add acc (js_mul (js_sub (Num v) mean)
                                                               (js_sub (Num v) mean)))
                                  nonzero (Num 0))
                            (Num (real count));
          normalizedScore = js_min (Num 1) (js_div variance (Num 1000))
      in \<lparr>blurScore = js_div (js_round (js_mul normalizedScore (Num 100))) (Num 100),
          blurPassed = js_ge normalizedScore (Num (minBlurScore th))\<rparr>)"

definition brightnessAt :: "ImageData \<Rightarrow> nat \<Rightarrow> nat" where
  "brightnessAt img i = nat (math_round (grayAt img i))"

definition brightnessList :: "ImageData \<Rightarrow> nat list" where
  "brightnessList img = map (brightnessAt img) [0 ..< width img * height img]"

text \<open>The 256-bin \<^verbatim>\<open>Int32Array\<close>; a write outside the array does nothing.\<close>

definition brightnessHistogram :: "nat list \<Rightarrow> nat list" where
  "brightnessHistogram bs = fold (\<lambda>b h. h[b := h ! b + 1]) bs (replicate 256 0)"

definition avgBrightness :: "ImageData \<Rightarrow> jsnum" where
  "avgBrightness img =
     js_div (Num (real (fold (\<lambda>b t. t + b) (brightnessList img) 0)))
            (Num (real (width img * height img)))"

definition lightingIssues :: "ImageData \<Rightarrow> string list" where
  "lightingIssues img =
     (let bs = brightnessList img;
          n = Num (real (width img * height img));
          minBrightness = fold (\<lambda>b m. min m b) bs 255;
          maxBrightness = fold (\<lambda>b m. max m b) bs 0;
          dynamicRange = int maxBrightness - int minBrightness;
          hist = brightnessHistogram bs;
          darkPixels = fold (\<lambda>b a. a + b) (take 50 hist) 0;
          darkPercentage = js_div (Num (real darkPixels)) n;
          brightPixels = fold (\<lambda>b a. a + b) (drop 245 hist) 0;
          brightPercentage = js_div (Num (real brightPixels)) n
      in (if js_lt (avgBrightness img) (Num 50) then [''Image is too dark''] else [])
         @ (if js_gt (avgBrightness img) (Num 200) then [''Image is too bright''] else [])
         @ (if dynamicRange < 100 then [''Low contrast - poor lighting''] else [])
         @ (if js_gt darkPercentage (Num 0.3) then [''Significant shadows detected''] else [])
         @ (if js_gt brightPercentage (Num 0.1) then [''Overexposed regions detected''] else []))"

definition checkLighting :: "QualityThresholds \<Rightarrow> ImageData \<Rightarrow> LightingResult" where
  "checkLighting th img =
     (let bs = brightnessList img;
          minBrightness = fold (\<lambda>b m. min m b) bs 255;
          maxBrightness = fold (\<lambda>b m. max m b) bs 0;
          dynamicRange = real_of_int (int maxBrightness - int minBrightness);
          found = lightingIssues img;
          s1 = js_sub (Num 1)
                 (js_mul (js_div (js_abs (js_sub (avgBrightness img) (Num 128))) (Num 256))
                         (Num 0.3));
          s2 = js_sub s1 (Num (max 0 ((150 - dynamicRange) / 150) * 0.3));
          s3 = js_sub s2 (Num (real (length found) * 0.15));
          score = js_max (Num 0) (js_min (Num 1) s3)
      in \<lparr>lightingScore = js_div (js_round (js_mul score (Num 100))) (Num 100),
          lightingPassed = (js_ge score (Num (minLightingScore th)) \<and> length found \<le> 1),
          issues = found\<rparr>)"

text \<open>The distances between consecutive reference points.\<close>

definition pointSpacings :: "Point list \<Rightarrow> real list" where
  "pointSpacings points =
     map (\<lambda>i. let dx = px (points ! i) - px (points ! (i - 1));
                  dy = py (points ! i) - py (points ! (i - 1))
              in sqrt (dx * dx + dy * dy))
         [1 ..< length points]"

definition checkPerspective :: "QualityThresholds \<Rightarrow> CalibrationData \<Rightarrow> PerspectiveResult" where
  "checkPerspective th calibrationData =
     (if \<not> detected calibrationData \<or> length (referencePoints calibrationData) < 2
      then \<lparr>distortion = Num 0, corrected = False\<rparr>
      else
        let d = (if markerType calibrationData = Ruler
                    \<and> 3 \<le> length (referencePoints calibrationData)
                 then
                   let spacings = pointSpacings (referencePoints calibrationData);
                       avgSpacing = fold (\<lambda>b a. a + b) spacings 0 / real (length spacings);
                       variance = fold (\<lambda>s sum. sum + (s - avgSpacing)\<^sup>2) spacings 0
                                    / real (length spacings);
                       cv = js_div (Num (sqrt variance)) (Num avgSpacing)
                   in js_mul cv (Num 45)
                 else Num 0);
            isCorrectable = js_le d (Num (maxPerspectiveDistortion th))
        in \<lparr>distortion = js_div (js_round (js_mul d (Num 10))) (Num 10),
            corrected = isCorrectable\<rparr>)"

definition runQualityChecks ::
  "QualityThresholds \<Rightarrow> ImageData \<Rightarrow> CalibrationData \<Rightarrow> QualityCheck" where
  "runQualityChecks th imageData calibrationData =
     (let blurResult = checkBlur th imageData;
          lightingResult = checkLighting th imageData;
          perspectiveResult = checkPerspective th calibrationData;
          allPassed = (blurPassed blurResult
                       \<and> lightingPassed lightingResult
                       \<and> detected calibrationData
                       \<and> minCalibrationConfidence th \<le> confidence calibrationData
                       \<and> corrected perspectiveResult)
      in \<lparr>passed = allPassed,
          blur = blurResult,
          lighting = lightingResult,
          calibration = \<lparr>calDetected = detected calibrationData,
                         calConfidence = confidence calibrationData\<rparr>,
          perspective = perspectiveResult\<rparr>)"

text \<open>An image of one colour: every pixel has the same red, green and blue value.\<close>

definition uniformImage :: "ImageData \<Rightarrow> bool" where
  "uniformImage img \<longleftrightarrow>
     list_all (\<lambda>i. data img ! (i * 4) = data img ! 0
                  \<and> data img ! (i * 4 + 1) = data img ! 1
                  \<and> data img ! (i * 4 + 2) = data img ! 2)
              [0 ..< width img * height img]"

section \<open>Calibration detectors\<close>

text \<open>
  The ruler, circle and grid detectors, from the values their first stages hand over: the
  lines of the Hough line transform, the edge points above the Otsu threshold, and the
  Harris corners.
\<close>

record HoughLine =
  lineRho :: real
  lineTheta :: real
  lineVotes :: nat

definition ruler_tickSpacingCm :: real where "ruler_tickSpacingCm = 1"

definition ruler_minTickCount :: nat where "ruler_minTickCount = 5"

text \<open>
  \<^verbatim>\<open>findParallelLines\<close>: a line joins the first group whose mean angle is within 0.1 rad,
  or opens a new group; the largest group wins, a later one on ties.
\<close>

fun addToGroups :: "HoughLine \<Rightarrow> HoughLine list list \<Rightarrow> HoughLine list list" where
  "addToGroups line [] = [[line]]"
| "addToGroups line (g # gs) =
     (let avgTheta = fold (\<lambda>l s. s + lineTheta l) g 0 / real (length g)
      in if \<bar>lineTheta line - avgTheta\<bar> < 0.1 then (g @ [line]) # gs
         else g # addToGroups line gs)"

definition findParallelLines :: "HoughLine list \<Rightarrow> HoughLine list" where
  "findParallelLines lines =
     (let parallelGroups = fold addToGroups lines []
      in fold (\<lambda>b a. if length b < length a then a else b) parallelGroups [])"

definition profileLength :: "nat \<Rightarrow> nat \<Rightarrow> nat" where
  "profileLength w h = nat \<lfloor>sqrt (real (w * w + h * h))\<rfloor>"

text \<open>The direction across the ruler; \<^verbatim>\<open>detectRuler\<close> passes at least two lines.\<close>

definition perpTheta :: "HoughLine list \<Rightarrow> real" where
  "perpTheta lines = fold (\<lambda>l s. s + lineTheta l) lines 0 / real (length lines) + pi / 2"

text \<open>The bin of pixel \<open>i = y * width + x\<close> in the profile along the ruler.\<close>

definition projectPixel :: "real \<Rightarrow> nat \<Rightarrow> nat \<Rightarrow> nat \<Rightarrow> int" where
  "projectPixel a w h i =
     math_round (real (i mod w) * cos a + real (i div w) * sin a + real (profileLength w h) / 2)"

text \<open>The normalised profile: the mean luma of the pixels of each bin, 0 for an empty bin.\<close>

definition tickProfile :: "ImageData \<Rightarrow> real \<Rightarrow> real list" where
  "tickProfile img a =
     map (\<lambda>j. let hits = filter (\<lambda>i. projectPixel a (width img) (height img) i = int j)
                                 [0 ..< width img * height img]
              in if 0 < length hits
                 then fold (\<lambda>i s. s + grayAt img i) hits 0 / real (length hits)
                 else 0)
         [0 ..< profileLength (width img) (height img)]"

text \<open>\<^verbatim>\<open>detectTickMarks\<close>: the local minima of the profile, mapped back to the image.\<close>

definition detectTickMarks :: "ImageData \<Rightarrow> HoughLine list \<Rightarrow> Point list" where
  "detectTickMarks img lines =
     (let a = perpTheta lines;
          n = profileLength (width img) (height img);
          profile = tickProfile img a
      in map (\<lambda>i. \<lparr>px = (real i - real n / 2) * cos a + real (width img) / 2,
                     py = (real i - real n / 2) * sin a + real (height img) / 2\<rparr>)
             (filter (\<lambda>i. profile ! i < profile ! (i - 1) \<and> profile ! i < profile ! (i + 1)
                          \<and> profile ! i < profile ! (i - 2) \<and> profile ! i < profile ! (i + 2))
                     [2 ..< n - 2]))"

definition calculateAverageSpacing :: "Point list \<Rightarrow> real" where
  "calculateAverageSpacing points =
     (if length points < 2 then 0
      else fold (\<lambda>d t. t + d) (pointSpacings points) 0 / real (length points - 1))"

text \<open>
  \<^verbatim>\<open>calculateTickConfidence\<close>; the mean spacing of the ticks of \<^verbatim>\<open>detectTickMarks\<close> is
  positive, so the division is by a non-zero number there.
\<close>

definition calculateTickConfidence :: "Point list \<Rightarrow> real" where
  "calculateTickConfidence ticks =
     (if length ticks < 3 then 0
      else
        let spacings = pointSpacings ticks;
            mean = fold (\<lambda>b a. a + b) spacings 0 / real (length spacings);
            variance = fold (\<lambda>s sum. sum + (s - mean)\<^sup>2) spacings 0 / real (length spacings);
            stdDev = sqrt variance;
            cv = stdDev / mean
        in max 0 (1 - cv * 2))"

text \<open>\<^verbatim>\<open>detectRuler\<close>, from the lines of the Hough line transform.\<close>

definition detectRulerFrom :: "HoughLine list \<Rightarrow> ImageData \<Rightarrow> CalibrationData" where
  "detectRulerFrom lines img =
     (let parallelLines = findParallelLines lines
      in if length parallelLines < 2 then createFailedCalibration Ruler
         else
           let ticks = detectTickMarks img parallelLines
           in if length ticks < ruler_minTickCount then createFailedCalibration Ruler
              else \<lparr>detected = True,
                    pixelsPerCm = calculateAverageSpacing ticks / ruler_tickSpacingCm,
                    confidence = calculateTickConfidence ticks,
                    markerType = Ruler,
                    referencePoints = ticks\<rparr>)"

record HoughCircle =
  centerX :: real
  centerY :: real
  radius :: real
  circularity :: real

text \<open>The candidate radius of step \<open>r\<close> of the 20 steps of \<^verbatim>\<open>houghCircleTransform\<close>.\<close>

definition circleRadius :: "nat \<Rightarrow> nat \<Rightarrow> nat \<Rightarrow> real" where
  "circleRadius w h r =
     (let minRadius = real (min w h) * 0.05;
          maxRadius = real (min w h) * 0.3
      in minRadius + (real r / 20) * (maxRadius - minRadius))"

definition sampledPoints :: "Point list \<Rightarrow> Point list" where
  "sampledPoints edgePoints =
     map (\<lambda>i. edgePoints ! i) (filter (\<lambda>i. i mod 10 = 0) [0 ..< length edgePoints])"

text \<open>The centres that the sampled points vote for, in voting order, inside the image.\<close>

definition candidateCenters :: "nat \<Rightarrow> nat \<Rightarrow> real \<Rightarrow> Point list \<Rightarrow> (int \<times> int) list" where
  "candidateCenters w h rad sampled =
     filter (\<lambda>(cx, cy). 0 \<le> cx \<and> cx < int w \<and> 0 \<le> cy \<and> cy < int h)
       (concat (map (\<lambda>p. map (\<lambda>k. (math_round (px p - rad * cos (real (10 * k) * pi / 180)),
                                       math_round (py p - rad * sin (real (10 * k) * pi / 180))))
                               [0 ..< 36])
                    sampled))"

text \<open>The accumulator \<^verbatim>\<open>Map\<close>: keys in order of first insertion, with their votes.\<close>

fun bumpVote :: "int \<times> int \<Rightarrow> ((int \<times> int) \<times> nat) list \<Rightarrow> ((int \<times> int) \<times> nat) list" where
  "bumpVote key [] = [(key, 1)]"
| "bumpVote key ((k, v) # acc) =
     (if k = key then (k, v + 1) # acc else (k, v) # bumpVote key acc)"

definition calculateCircularity :: "Point list \<Rightarrow> real \<Rightarrow> real \<Rightarrow> real \<Rightarrow> real" where
  "calculateCircularity edgePoints cx cy rad =
     (let tolerance = rad * 0.1;
          onCircle = length (filter (\<lambda>p. \<bar>sqrt ((px p - cx)\<^sup>2 + (py p - cy)\<^sup>2) - rad\<bar> < tolerance)
                                    edgePoints);
          expectedPoints = 2 * pi * rad
      in min 1 (real onCircle / expectedPoints))"

definition circlesAt :: "Point list \<Rightarrow> nat \<Rightarrow> nat \<Rightarrow> nat \<Rightarrow> HoughCircle list" where
  "circlesAt edgePoints w h r =
     (let rad = circleRadius w h r;
          sampled = sampledPoints edgePoints;
          accumulator = fold bumpVote (candidateCenters w h rad sampled) []
      in map (\<lambda>((cx, cy), v).
                \<lparr>centerX = real_of_int cx, centerY = real_of_int cy, radius = rad,
                 circularity = calculateCircularity edgePoints (real_of_int cx) (real_of_int cy) rad\<rparr>)
             (filter (\<lambda>((cx, cy), v).
                        real (length sampled) * 0.1 < real v
                        \<and> 0.7 < calculateCircularity edgePoints (real_of_int cx) (real_of_int cy) rad)
                     accumulator))"

text \<open>\<^verbatim>\<open>houghCircleTransform\<close>, from the edge points above the Otsu threshold.\<close>

definition houghCircleTransformFrom :: "Point list \<Rightarrow> nat \<Rightarrow> nat \<Rightarrow> HoughCircle list" where
  "houghCircleTransformFrom edgePoints w h = concat (map (circlesAt edgePoints w h) [0 ..< 20])"

text \<open>\<^verbatim>\<open>detectCircle\<close>; the \<^verbatim>\<open>reduce\<close> keeps the later circle on equal circularity.\<close>

definition detectCircleFrom :: "Point list \<Rightarrow> nat \<Rightarrow> nat \<Rightarrow> CalibrationData" where
  "detectCircleFrom edgePoints w h =
     (let circles = houghCircleTransformFrom edgePoints w h
      in if length circles = 0 then createFailedCalibration Circle
         else
           let bestCircle = fold (\<lambda>b a. if circularity b < circularity a then a else b)
                                 (tl circles) (hd circles);
               diameterPixels = radius bestCircle * 2
           in \<lparr>detected = True,
               pixelsPerCm = diameterPixels / circle_diameterCm,
               confidence = circularity bestCircle,
               markerType = Circle,
               referencePoints =
                 [\<lparr>px = centerX bestCircle, py = centerY bestCircle\<rparr>,
                  \<lparr>px = centerX bestCircle + radius bestCircle, py = centerY bestCircle\<rparr>]\<rparr>)"


section \<open>Auxiliary definitions for the properties\<close>

text \<open>
  A reversed hull stack in which every three consecutive points make a strict left turn.
\<close>

fun leftChain :: "Point list \<Rightarrow> bool" where
  "leftChain (c # b # a # st) \<longleftrightarrow> 0 < crossProduct a b c \<and> leftChain (b # a # st)"
| "leftChain _ \<longleftrightarrow> True"

text \<open>A right triangle whose contour runs clockwise from the lowest point.\<close>

definition clockwiseTriangle :: "Point list" where
  "clockwiseTriangle = [\<lparr>px = 0, py = 0\<rparr>, \<lparr>px = 0, py = 1\<rparr>, \<lparr>px = 1, py = 0\<rparr>]"

text \<open>Sample inputs: a one-pixel mask, a two-point contour, a manual-style calibration.\<close>

definition sampleMask :: ImageData where
  "sampleMask = \<lparr>data = [255, 255, 255, 255], width = 1, height = 1\<rparr>"

definition sampleSegmentation :: SegmentationResult where
  "sampleSegmentation =
     \<lparr>mask = sampleMask, contour = clockwiseTriangle, segConfidence = 1\<rparr>"

definition degenerateSegmentation :: SegmentationResult where
  "degenerateSegmentation =
     \<lparr>mask = sampleMask, contour = [\<lparr>px = 0, py = 0\<rparr>, \<lparr>px = 3, py = 4\<rparr>],
      segConfidence = 1\<rparr>"

definition sampleCalibration :: CalibrationData where
  "sampleCalibration =
     \<lparr>detected = True, pixelsPerCm = 10, confidence = 1, markerType = Ruler,
      referencePoints = [\<lparr>px = 0, py = 0\<rparr>, \<lparr>px = 10, py = 0\<rparr>]\<rparr>"

text \<open>
  A detector result as the detectors build it: either \<^verbatim>\<open>createFailedCalibration\<close> of its
  marker type, or a record with \<^verbatim>\<open>detected: true\<close>.
\<close>

definition wellFormedResult :: "CalibrationData \<Rightarrow> bool" where
  "wellFormedResult r \<longleftrightarrow> detected r \<or> r = createFailedCalibration (markerType r)"


definition circleCalibration :: CalibrationData where
  "circleCalibration =
     \<lparr>detected = True, pixelsPerCm = 40, confidence = 0.85, markerType = Circle,
      referencePoints = [\<lparr>px = 50, py = 50\<rparr>, \<lparr>px = 100, py = 50\<rparr>]\<rparr>"

definition rulerCalibration :: CalibrationData where
  "rulerCalibration =
     \<lparr>detected = True, pixelsPerCm = 100, confidence = 0.9, markerType = Ruler,
      referencePoints = [\<lparr>px = 0, py = 0\<rparr>, \<lparr>px = 95, py = 0\<rparr>, \<lparr>px = 200, py = 0\<rparr>,
                         \<lparr>px = 295, py = 0\<rparr>, \<lparr>px = 400, py = 0\<rparr>]\<rparr>"


text \<open>A grey image: every pixel has equal red, green and blue, and full alpha.\<close>

definition grayImage :: "nat \<Rightarrow> nat \<Rightarrow> 8 word list \<Rightarrow> ImageData" where
  "grayImage w h vs = \<lparr>data = concat (map (\<lambda>v. [v, v, v, 255]) vs), width = w, height = h\<rparr>"

definition darkSharpImage :: ImageData where
  "darkSharpImage = grayImage 4 3 [0, 100, 0, 0, 60, 100, 0, 0, 0, 100, 0, 0]"


definition flatImage :: ImageData where
  "flatImage = grayImage 3 3 [10, 10, 10, 10, 10, 10, 10, 10, 10]"

text \<open>Three assessments one day apart with the area sequences of the specification.\<close>

definition healingAssessments :: "WoundAssessment list" where
  "healingAssessments = [assessmentOf 0 10, assessmentOf 86400000 8, assessmentOf 172800000 6]"

definition worseningAssessments :: "WoundAssessment list" where
  "worseningAssessments = [assessmentOf 0 10, assessmentOf 86400000 11, assessmentOf 172800000 12]"

definition steadyAssessments :: "WoundAssessment list" where
  "steadyAssessments = [assessmentOf 0 10, assessmentOf 86400000 10.1, assessmentOf 172800000 9.9]"








section \<open>Properties of the measurement engine\<close>

lemma round_num_zero: "round_num 0 d = 0"
  by (simp add: round_num_def math_round_def)

text \<open>
  Claim C1. \<^verbatim>\<open>calculateMeasurements\<close> throws exactly when the calibration is not detected
  or its \<open>pixelsPerCm\<close> is not positive; with a detected calibration of positive scale it
  returns a measurement.
\<close>

theorem calculateMeasurements_fails_iff_invalid_calibration:
  "((\<exists>e. calculateMeasurements seg cal = Inl e)
      \<longleftrightarrow> (\<not> detected cal \<or> pixelsPerCm cal \<le> 0))
   \<and> (detected cal \<and> 0 < pixelsPerCm cal
        \<longrightarrow> (\<exists>m. calculateMeasurements seg cal = Inr m))"
  by (simp add: calculateMeasurements_def Let_def)

theorem calculateMeasurements_fails_iff_invalid_calibration_witness:
  "detected sampleCalibration \<and> 0 < pixelsPerCm sampleCalibration
   \<and> (\<exists>m. calculateMeasurements sampleSegmentation sampleCalibration = Inr m)
   \<and> \<not> (\<exists>e. calculateMeasurements sampleSegmentation sampleCalibration = Inl e)"
  using calculateMeasurements_fails_iff_invalid_calibration
          [of sampleSegmentation sampleCalibration]
  by (simp add: sampleCalibration_def)

text \<open>
  Claim C9. For a contour of fewer than three points and a valid calibration,
  \<^verbatim>\<open>calculateMeasurements\<close> does not throw and returns perimeter, length and width 0.
\<close>

theorem degenerate_contour_zero_geometry:
  assumes "length (contour seg) < 3" and "detected cal" and "0 < pixelsPerCm cal"
  shows "\<exists>m. calculateMeasurements seg cal = Inr m
             \<and> perimeter m = 0 \<and> length_cm m = 0 \<and> width_cm m = 0"
  using assms
  by (simp add: calculateMeasurements_def Let_def calculatePerimeter_def
                calculateLengthWidth_def round_num_zero)

theorem degenerate_contour_zero_geometry_witness:
  "length (contour degenerateSegmentation) < 3 \<and> detected sampleCalibration
   \<and> 0 < pixelsPerCm sampleCalibration
   \<and> (\<exists>m. calculateMeasurements degenerateSegmentation sampleCalibration = Inr m
            \<and> perimeter m = 0 \<and> length_cm m = 0 \<and> width_cm m = 0)"
  using degenerate_contour_zero_geometry [of degenerateSegmentation sampleCalibration]
  by (simp add: degenerateSegmentation_def sampleCalibration_def)

subsection \<open>The hull scan\<close>

lemma leftChain_tl: "leftChain (x # xs) \<Longrightarrow> leftChain xs"
proof (cases xs)
  case Nil
  then show ?thesis by simp
next
  case (Cons b ys)
  assume "leftChain (x # xs)"
  with Cons show ?thesis by (cases ys) auto
qed

lemma leftChain_append: "leftChain (xs @ ys) \<Longrightarrow> leftChain ys"
  by (induction xs) (auto dest: leftChain_tl)

lemma leftChain_popWhile: "leftChain st \<Longrightarrow> leftChain (popWhile p st)"
  by (induction p st rule: popWhile.induct) (auto dest: leftChain_tl)

lemma leftChain_scanStep: "leftChain st \<Longrightarrow> leftChain (scanStep p st)"
  unfolding scanStep_def
  by (induction p st rule: popWhile.induct) (auto dest: leftChain_tl)

lemma popWhile_last: "st \<noteq> [] \<Longrightarrow> popWhile p st \<noteq> [] \<and> last (popWhile p st) = last st"
  by (induction p st rule: popWhile.induct) auto

lemma popWhile_subset: "set (popWhile p st) \<subseteq> set st"
  by (induction p st rule: popWhile.induct) auto

lemma fold_scanStep_nonempty: "st \<noteq> [] \<Longrightarrow> fold scanStep ps st \<noteq> []"
  by (induction ps arbitrary: st) (auto simp: scanStep_def)

lemma fold_scanStep_chain: "leftChain st \<Longrightarrow> leftChain (fold scanStep ps st)"
  by (induction ps arbitrary: st) (auto simp: leftChain_scanStep)

lemma scanStep_last: "st \<noteq> [] \<Longrightarrow> last (scanStep p st) = last st"
  using popWhile_last [of st p] by (simp add: scanStep_def)

lemma fold_scanStep_last: "st \<noteq> [] \<Longrightarrow> last (fold scanStep ps st) = last st"
proof (induction ps arbitrary: st)
  case Nil
  then show ?case by simp
next
  case (Cons p ps)
  have "scanStep p st \<noteq> []" by (simp add: scanStep_def)
  then have "last (fold scanStep ps (scanStep p st)) = last (scanStep p st)"
    by (rule Cons.IH)
  with Cons.prems show ?case by (simp add: scanStep_last)
qed

lemma fold_scanStep_subset: "set (fold scanStep ps st) \<subseteq> set ps \<union> set st"
proof (induction ps arbitrary: st)
  case Nil
  then show ?case by simp
next
  case (Cons p ps)
  have "set (scanStep p st) \<subseteq> insert p (set st)"
    using popWhile_subset [of p st] by (auto simp: scanStep_def)
  with Cons.IH [of "scanStep p st"] show ?case by auto
qed

lemma lowerThan_irrefl: "\<not> lowerThan p p"
  by (simp add: lowerThan_def)

lemma lowerThan_trans: "lowerThan p q \<Longrightarrow> lowerThan q r \<Longrightarrow> lowerThan p r"
  by (auto simp: lowerThan_def)

lemma findLowest_upto:
  "1 \<le> n \<Longrightarrow> n \<le> length ps \<Longrightarrow>
     fold (\<lambda>i lowest. if lowerThan (ps ! i) (ps ! lowest) then i else lowest) [1 ..< n] 0 < n
     \<and> (\<forall>i<n. \<not> lowerThan (ps ! i)
          (ps ! fold (\<lambda>i lowest. if lowerThan (ps ! i) (ps ! lowest) then i else lowest) [1 ..< n] 0))"
proof (induction n)
  case 0
  then show ?case by simp
next
  case (Suc n)
  let ?f = "\<lambda>i lowest. if lowerThan (ps ! i) (ps ! lowest) then i else lowest"
  let ?l = "fold ?f [1 ..< n] 0"
  show ?case
  proof (cases "n = 0")
    case True
    then show ?thesis by (simp add: lowerThan_irrefl)
  next
    case False
    with Suc have ih1: "?l < n" and ih2: "\<forall>i<n. \<not> lowerThan (ps ! i) (ps ! ?l)"
      by simp_all
    from False have "[1 ..< Suc n] = [1 ..< n] @ [n]" by simp
    then have step: "fold ?f [1 ..< Suc n] 0 = ?f n ?l"
      by (simp only: fold_append o_apply fold_simps)
    show ?thesis
    proof (cases "lowerThan (ps ! n) (ps ! ?l)")
      case True
      have "\<not> lowerThan (ps ! i) (ps ! n)" if "i < Suc n" for i
      proof (cases "i = n")
        case True
        then show ?thesis by (simp add: lowerThan_irrefl)
      next
        case False
        with that have "i < n" by simp
        with ih2 have "\<not> lowerThan (ps ! i) (ps ! ?l)" by simp
        with \<open>lowerThan (ps ! n) (ps ! ?l)\<close> show ?thesis using lowerThan_trans by blast
      qed
      moreover from True have "fold ?f [1 ..< Suc n] 0 = n"
        by (simp only: step if_True)
      ultimately show ?thesis by (simp only: lessI) simp
    next
      case False
      have "\<not> lowerThan (ps ! i) (ps ! ?l)" if "i < Suc n" for i
        using that False ih2 by (cases "i = n") simp_all
      moreover from False have "fold ?f [1 ..< Suc n] 0 = ?l"
        by (simp only: step if_False)
      moreover from ih1 have "?l < Suc n" by simp
      ultimately show ?thesis by (simp only:) simp
    qed
  qed
qed

lemma findLowest_bound: "ps \<noteq> [] \<Longrightarrow> findLowest ps < length ps"
  using findLowest_upto [of "length ps" ps] by (cases ps) (auto simp: findLowest_def)

lemma findLowest_least:
  "i < length ps \<Longrightarrow> \<not> lowerThan (ps ! i) (ps ! findLowest ps)"
  using findLowest_upto [of "length ps" ps] by (cases ps) (auto simp: findLowest_def)

lemma findLowest_stays:
  "n \<le> length ps \<Longrightarrow> \<forall>i<n. \<not> lowerThan (ps ! i) (ps ! 0) \<Longrightarrow>
     fold (\<lambda>i lowest. if lowerThan (ps ! i) (ps ! lowest) then i else lowest) [1 ..< n] 0 = 0"
proof (induction n)
  case 0
  then show ?case by simp
next
  case (Suc n)
  then show ?case by (cases "n = 0") auto
qed

lemma findLowest_zero:
  "\<forall>i<length ps. \<not> lowerThan (ps ! i) (ps ! 0) \<Longrightarrow> findLowest ps = 0"
  using findLowest_stays [of "length ps" ps] by (simp add: findLowest_def)

lemma rescan:
  "2 \<le> length pre \<Longrightarrow> leftChain (rev (pre @ rest)) \<Longrightarrow>
     fold scanStep rest (rev pre) = rev (pre @ rest)"
proof (induction rest arbitrary: pre)
  case Nil
  then show ?case by simp
next
  case (Cons p rest)
  from Cons.prems(1) obtain b r1 where r1: "rev pre = b # r1"
    by (cases "rev pre") auto
  then have "length pre = Suc (length r1)"
    by (metis length_rev length_Cons)
  with Cons.prems(1) obtain a st where "r1 = a # st"
    by (cases r1) auto
  with r1 have pre: "rev pre = b # a # st" by simp
  have "leftChain (rev rest @ (p # rev pre))" using Cons.prems(2) by simp
  then have "leftChain (p # rev pre)" by (rule leftChain_append)
  with pre have "0 < crossProduct a b p" by simp
  with pre have "scanStep p (rev pre) = rev (pre @ [p])" by (simp add: scanStep_def)
  moreover have "fold scanStep rest (rev (pre @ [p])) = rev ((pre @ [p]) @ rest)"
    using Cons.prems by (intro Cons.IH) auto
  ultimately show ?case by simp
qed

lemma rev_take2: "2 \<le> length H \<Longrightarrow> rev (take 2 H) = [H ! 1, H ! 0]"
proof -
  assume "2 \<le> length H"
  then obtain a b r where "H = a # b # r"
    by (cases H; cases "tl H") auto
  then show ?thesis by (simp add: numeral_2_eq_2)
qed

lemma convexHull_fixed:
  assumes chain: "leftChain (rev H)"
    and low: "\<forall>i<length H. \<not> lowerThan (H ! i) (H ! 0)"
  shows "convexHull H = H"
proof (cases "length H < 3")
  case True
  then show ?thesis by (simp add: convexHull_def)
next
  case False
  then have len: "2 \<le> length H" by simp
  from low have fl: "findLowest H = 0" by (rule findLowest_zero)
  have "leftChain (rev (take 2 H @ drop 2 H))" using chain by simp
  with len have "fold scanStep (drop 2 H) (rev (take 2 H)) = rev (take 2 H @ drop 2 H)"
    by (intro rescan) simp_all
  with len have "fold scanStep (drop 2 H) [H ! 1, H ! 0] = rev H"
    by (simp add: rev_take2)
  with False fl show ?thesis by (simp add: convexHull_def)
qed

lemma convexHull_idem: "convexHull (convexHull ps) = convexHull ps"
proof (cases "length ps < 3")
  case True
  then show ?thesis by (simp add: convexHull_def)
next
  case False
  define l where "l = findLowest ps"
  define sorted where "sorted = (ps[0 := ps ! l])[l := ps ! 0]"
  define R where "R = fold scanStep (drop 2 sorted) [sorted ! 1, sorted ! 0]"
  from False have ne: "ps \<noteq> []" by auto
  then have lb: "l < length ps" unfolding l_def by (rule findLowest_bound)
  have hull: "convexHull ps = rev R"
    using False by (simp add: convexHull_def R_def sorted_def l_def Let_def)
  have s0: "sorted ! 0 = ps ! l"
    using lb ne by (cases "l = 0") (simp_all add: sorted_def)
  have sset: "set sorted = set ps"
    unfolding sorted_def using lb ne by (intro set_swap) simp_all
  have Rne: "R \<noteq> []" unfolding R_def by (rule fold_scanStep_nonempty) simp
  have Rchain: "leftChain R" unfolding R_def by (rule fold_scanStep_chain) simp
  have Rlast: "last R = ps ! l"
    unfolding R_def using s0 by (simp add: fold_scanStep_last)
  have len_sorted: "length sorted = length ps" by (simp add: sorted_def)
  have "set (drop 2 sorted) \<subseteq> set sorted" by (rule set_drop_subset)
  moreover from False len_sorted have "1 < length sorted" "0 < length sorted" by linarith+
  then have "sorted ! 1 \<in> set sorted" "sorted ! 0 \<in> set sorted"
    by (simp_all only: nth_mem)
  ultimately have Rset: "set R \<subseteq> set ps"
    using fold_scanStep_subset [of "drop 2 sorted" "[sorted ! 1, sorted ! 0]"] sset
    unfolding R_def by auto
  have H0: "rev R ! 0 = ps ! l"
    using Rne Rlast by (simp add: hd_conv_nth [symmetric] hd_rev)
  have "\<not> lowerThan (rev R ! i) (rev R ! 0)" if "i < length (rev R)" for i
  proof -
    from that have "rev R ! i \<in> set R" by (metis nth_mem set_rev)
    with Rset have "rev R ! i \<in> set ps" by auto
    then obtain j where "j < length ps" "ps ! j = rev R ! i"
      by (auto simp: in_set_conv_nth)
    with findLowest_least [of j ps] show ?thesis by (simp add: H0 l_def)
  qed
  then have "convexHull (rev R) = rev R"
    using Rchain by (intro convexHull_fixed) simp_all
  with hull show ?thesis by simp
qed

text \<open>
  Claim C7. \<^verbatim>\<open>convexHull\<close> applied to its own output yields the same set of points as
  one application (indeed the same list).
\<close>

theorem convexHull_idempotent: "set (convexHull (convexHull ps)) = set (convexHull ps)"
  by (simp add: convexHull_idem)

lemma findLowest_clockwiseTriangle: "findLowest clockwiseTriangle = 0"
  by (simp add: findLowest_def clockwiseTriangle_def lowerThan_def upt_rec)

lemma convexHull_clockwiseTriangle:
  "convexHull clockwiseTriangle = [\<lparr>px = 0, py = 0\<rparr>, \<lparr>px = 1, py = 0\<rparr>]"
  using findLowest_clockwiseTriangle
  by (simp add: convexHull_def clockwiseTriangle_def scanStep_def crossProduct_def)

text \<open>
  Claim C8, at the contour \<open>clockwiseTriangle\<close>. The scan keeps two of the three
  corners, \<^verbatim>\<open>minAreaRect\<close> returns the zero rectangle for a hull of two points, and the
  rectangle's area 0 is below the triangle's area 1/2.
\<close>

theorem minAreaRect_below_triangle_area:
  "convexHull clockwiseTriangle = [\<lparr>px = 0, py = 0\<rparr>, \<lparr>px = 1, py = 0\<rparr>]
   \<and> minAreaRect (convexHull clockwiseTriangle)
        = \<lparr>rectWidth = 0, rectHeight = 0, rectAngle = 0\<rparr>
   \<and> calculateLengthWidth clockwiseTriangle = (0, 0)
   \<and> rectWidth (minAreaRect (convexHull clockwiseTriangle))
        * rectHeight (minAreaRect (convexHull clockwiseTriangle))
      < \<bar>crossProduct (clockwiseTriangle ! 0) (clockwiseTriangle ! 1) (clockwiseTriangle ! 2)\<bar> / 2"
  using convexHull_clockwiseTriangle
  by (simp add: minAreaRect_def calculateLengthWidth_def clockwiseTriangle_def
                crossProduct_def)

section \<open>Properties of the healing analytics\<close>

lemma fold_add_sum_list:
  fixes f :: "'a \<Rightarrow> real"
  shows "fold (\<lambda>p s. s + f p) xs a = a + sum_list (map f xs)"
  by (induction xs arbitrary: a) simp_all

lemma recentTrend_spec: "recentTrend progress = specTrend progress"
  by (simp add: recentTrend_def specTrend_def lastUpTo3_def trendOfAverage_def
                fold_add_sum_list Let_def)

lemma progressEntry_first_percent: "areaChangePercent (progressEntry None c) = 0"
  by (simp add: progressEntry_def Let_def round_num_zero)

lemma progressFrom_length: "length (progressFrom prev xs) = length xs"
  by (induction xs arbitrary: prev) simp_all

lemma single_progress_percent:
  assumes "length (calculateHealingProgress as) = 1"
  shows "areaChangePercent (calculateHealingProgress as ! 0) = 0"
proof -
  from assms have ne: "length as \<noteq> 0"
    by (auto simp: calculateHealingProgress_def)
  then obtain c rest where "sort_key capturedAt as = c # rest"
    by (cases "sort_key capturedAt as") (auto dest: arg_cong [where f = length])
  with ne show ?thesis
    by (simp add: calculateHealingProgress_def progressEntry_first_percent)
qed

lemma trend_is_specTrend:
  "trend (calculateWoundAnalytics wid as onset now) = specTrend (calculateHealingProgress as)"
proof -
  let ?p = "calculateHealingProgress as"
  consider "length ?p = 0" | "length ?p = 1" | "2 \<le> length ?p" by linarith
  then show ?thesis
  proof cases
    case 1
    then show ?thesis
      by (simp add: calculateWoundAnalytics_def emptyAnalytics_def specTrend_def
                    lastUpTo3_def trendOfAverage_def)
  next
    case 2
    then obtain e where e: "?p = [e]"
      by (cases ?p) auto
    with single_progress_percent [OF 2] have "areaChangePercent e = 0" by simp
    with e 2 show ?thesis
      by (simp add: calculateWoundAnalytics_def Let_def specTrend_def
                    lastUpTo3_def trendOfAverage_def)
  next
    case 3
    then have "?p \<noteq> []" by auto
    with 3 show ?thesis
      by (simp add: calculateWoundAnalytics_def Let_def recentTrend_spec)
  qed
qed

lemma three_areas:
  assumes "map (\<lambda>a. area (measurement a)) as = [u, v, w]"
  obtains a1 a2 a3 where "as = [a1, a2, a3]" "area (measurement a1) = u"
    "area (measurement a2) = v" "area (measurement a3) = w"
  using assms by (auto simp: map_eq_Cons_conv)

lemma progress_percents:
  assumes "sorted (map capturedAt as)" and "map (\<lambda>a. area (measurement a)) as = [u, v, w]"
    and "0 < u" and "0 < v"
  shows "map areaChangePercent (calculateHealingProgress as)
           = [0, round_num ((v - u) / u * 100) 1, round_num ((w - v) / v * 100) 1]"
proof -
  from assms(2) obtain a1 a2 a3 where as: "as = [a1, a2, a3]" "area (measurement a1) = u"
    "area (measurement a2) = v" "area (measurement a3) = w"
    by (rule three_areas)
  from assms(1) have "sort_key capturedAt as = as" by (rule sort_key_id_if_sorted)
  then have "calculateHealingProgress as = progressFrom None [a1, a2, a3]"
    using as(1) by (simp add: calculateHealingProgress_def)
  then show ?thesis using as assms(3,4)
    by (simp add: progressEntry_def Let_def round_num_zero)
qed

text \<open>
  Claim C5. The trend is the classification (improving below -5, worsening above 5, stable
  otherwise) of the average \<^verbatim>\<open>areaChangePercent\<close> of the last up to three progress
  entries; an empty history has average 0 here. Chronologically ordered assessments with
  areas 10, 8, 6 are improving, with 10, 11, 12 worsening, with 10, 10.1, 9.9 stable.
\<close>

theorem trend_classification:
  "trend (calculateWoundAnalytics wid as onset now) = specTrend (calculateHealingProgress as)
   \<and> (sorted (map capturedAt as) \<and> map (\<lambda>a. area (measurement a)) as = [10, 8, 6]
        \<longrightarrow> trend (calculateWoundAnalytics wid as onset now) = Improving)
   \<and> (sorted (map capturedAt as) \<and> map (\<lambda>a. area (measurement a)) as = [10, 11, 12]
        \<longrightarrow> trend (calculateWoundAnalytics wid as onset now) = Worsening)
   \<and> (sorted (map capturedAt as) \<and> map (\<lambda>a. area (measurement a)) as = [10, 10.1, 9.9]
        \<longrightarrow> trend (calculateWoundAnalytics wid as onset now) = Stable)"
proof (intro conjI impI)
  show "trend (calculateWoundAnalytics wid as onset now) = specTrend (calculateHealingProgress as)"
    by (rule trend_is_specTrend)
next
  assume h: "sorted (map capturedAt as) \<and> map (\<lambda>a. area (measurement a)) as = [10, 8, 6]"
  then have "map areaChangePercent (calculateHealingProgress as) = [0, - 20, - 25]"
    using progress_percents [of as 10 8 6] by (simp add: round_num_def math_round_def)
  moreover from this have "length (calculateHealingProgress as) = 3"
    by (metis length_map length_Cons list.size(3) numeral_3_eq_3)
  ultimately show "trend (calculateWoundAnalytics wid as onset now) = Improving"
    by (simp add: trend_is_specTrend specTrend_def lastUpTo3_def trendOfAverage_def)
next
  assume h: "sorted (map capturedAt as) \<and> map (\<lambda>a. area (measurement a)) as = [10, 11, 12]"
  then have "map areaChangePercent (calculateHealingProgress as) = [0, 10, 9.1]"
    using progress_percents [of as 10 11 12] by (simp add: round_num_def math_round_def)
  moreover from this have "length (calculateHealingProgress as) = 3"
    by (metis length_map length_Cons list.size(3) numeral_3_eq_3)
  ultimately show "trend (calculateWoundAnalytics wid as onset now) = Worsening"
    by (simp add: trend_is_specTrend specTrend_def lastUpTo3_def trendOfAverage_def)
next
  assume h: "sorted (map capturedAt as) \<and> map (\<lambda>a. area (measurement a)) as = [10, 10.1, 9.9]"
  then have "map areaChangePercent (calculateHealingProgress as) = [0, 1, - 2]"
    using progress_percents [of as 10 "10.1" "9.9"] by (simp add: round_num_def math_round_def)
  moreover from this have "length (calculateHealingProgress as) = 3"
    by (metis length_map length_Cons list.size(3) numeral_3_eq_3)
  ultimately show "trend (calculateWoundAnalytics wid as onset now) = Stable"
    by (simp add: trend_is_specTrend specTrend_def lastUpTo3_def trendOfAverage_def)
qed

theorem trend_classification_witness:
  "sorted (map capturedAt healingAssessments)
   \<and> map (\<lambda>a. area (measurement a)) healingAssessments = [10, 8, 6]
   \<and> trend (calculateWoundAnalytics [] healingAssessments 0 172800000) = Improving
   \<and> sorted (map capturedAt worseningAssessments)
   \<and> map (\<lambda>a. area (measurement a)) worseningAssessments = [10, 11, 12]
   \<and> trend (calculateWoundAnalytics [] worseningAssessments 0 172800000) = Worsening
   \<and> sorted (map capturedAt steadyAssessments)
   \<and> map (\<lambda>a. area (measurement a)) steadyAssessments = [10, 10.1, 9.9]
   \<and> trend (calculateWoundAnalytics [] steadyAssessments 0 172800000) = Stable"
proof -
  have h: "sorted (map capturedAt healingAssessments)
           \<and> map (\<lambda>a. area (measurement a)) healingAssessments = [10, 8, 6]"
    by (simp add: healingAssessments_def assessmentOf_def)
  have w: "sorted (map capturedAt worseningAssessments)
           \<and> map (\<lambda>a. area (measurement a)) worseningAssessments = [10, 11, 12]"
    by (simp add: worseningAssessments_def assessmentOf_def)
  have s: "sorted (map capturedAt steadyAssessments)
           \<and> map (\<lambda>a. area (measurement a)) steadyAssessments = [10, 10.1, 9.9]"
    by (simp add: steadyAssessments_def assessmentOf_def)
  note hI = trend_classification [of "[]" healingAssessments 0 172800000,
                 THEN conjunct2, THEN conjunct1, rule_format, OF h]
  note wI = trend_classification [of "[]" worseningAssessments 0 172800000,
                 THEN conjunct2, THEN conjunct2, THEN conjunct1, rule_format, OF w]
  note sI = trend_classification [of "[]" steadyAssessments 0 172800000,
                 THEN conjunct2, THEN conjunct2, THEN conjunct2, rule_format, OF s]
  from h w s hI wI sI show ?thesis by (simp only: simp_thms)
qed

section \<open>Properties of the calibration engine\<close>






lemma wellFormedResult_manual: "wellFormedResult (manualCalibration p1 p2 d)"
  by (simp add: wellFormedResult_def manualCalibration_def Let_def)

lemma wellFormedResult_grid: "wellFormedResult (detectGridFrom corners)"
  by (simp add: wellFormedResult_def detectGridFrom_def Let_def createFailedCalibration_def)

lemma wellFormedResult_above:
  "wellFormedResult r \<Longrightarrow> 0.8 < confidence r \<Longrightarrow> detected r"
proof (rule ccontr)
  assume wf: "wellFormedResult r" and c: "0.8 < confidence r" and nd: "\<not> detected r"
  then have "r = createFailedCalibration (markerType r)" by (simp add: wellFormedResult_def)
  then have "confidence r = 0"
    by (metis CalibrationData.select_convs(3) createFailedCalibration_def)
  with c show False by simp
qed

text \<open>
  Claim C3. Over detector results of the shape the detectors build, \<^verbatim>\<open>detectCalibration\<close>
  returns the first of the ruler, circle and grid results whose confidence exceeds 0.8, and
  a candidate of highest confidence when none does; with ruler confidence 0.9 and circle
  confidence 0.85 it returns the ruler result.
\<close>

theorem detectCalibration_priority:
  assumes "wellFormedResult (detectRuler img)" and "wellFormedResult (detectCircle img)"
    and "wellFormedResult (detectGrid img)"
  shows "(case firstAbove [detectRuler img, detectCircle img, detectGrid img] of
            Some r \<Rightarrow> detectCalibration detectRuler detectCircle detectGrid img = r
          | None \<Rightarrow> highestConfidence [detectRuler img, detectCircle img, detectGrid img]
                      (detectCalibration detectRuler detectCircle detectGrid img))
         \<and> (confidence (detectRuler img) = 0.9 \<and> confidence (detectCircle img) = 0.85
              \<longrightarrow> detectCalibration detectRuler detectCircle detectGrid img = detectRuler img)"
proof -
  note d = assms [THEN wellFormedResult_above]
  have r: "0.8 < confidence (detectRuler img) \<Longrightarrow> detected (detectRuler img)"
    and c: "0.8 < confidence (detectCircle img) \<Longrightarrow> detected (detectCircle img)"
    and g: "0.8 < confidence (detectGrid img) \<Longrightarrow> detected (detectGrid img)"
    using d by blast+
  show ?thesis
    using r c g
    by (auto simp: detectCalibration_def Let_def firstAbove_def highestConfidence_def)
qed

theorem detectCalibration_priority_witness:
  "wellFormedResult rulerCalibration \<and> wellFormedResult circleCalibration
   \<and> wellFormedResult (createFailedCalibration Grid)
   \<and> confidence rulerCalibration = 0.9 \<and> confidence circleCalibration = 0.85
   \<and> detectCalibration (\<lambda>_. rulerCalibration) (\<lambda>_. circleCalibration)
                        (\<lambda>_. createFailedCalibration Grid) sampleMask = rulerCalibration"
proof -
  have w: "wellFormedResult rulerCalibration" "wellFormedResult circleCalibration"
    "wellFormedResult (createFailedCalibration Grid)"
    by (simp_all add: wellFormedResult_def rulerCalibration_def circleCalibration_def
                      createFailedCalibration_def)
  have c: "confidence rulerCalibration = 0.9 \<and> confidence circleCalibration = 0.85"
    by (simp add: rulerCalibration_def circleCalibration_def)
  from detectCalibration_priority [of "\<lambda>_. rulerCalibration" sampleMask "\<lambda>_. circleCalibration"
              "\<lambda>_. createFailedCalibration Grid", OF w] c w
  show ?thesis by simp
qed

section \<open>Properties of the quality check engine\<close>

text \<open>
  Claim C6, as stated, at a detected circle calibration with its two reference points: the
  perspective sub-check reports \<open>corrected = true\<close>.
\<close>

theorem checkPerspective_circle_counterexample:
  "markerType circleCalibration \<noteq> Ruler
   \<and> corrected (perspective (runQualityChecks DEFAULT_THRESHOLDS sampleMask circleCalibration))"
  by (simp add: runQualityChecks_def Let_def checkPerspective_def circleCalibration_def
                DEFAULT_THRESHOLDS_def js_le_def)

text \<open>
  Claim C6, amended. When the marker is not a ruler or there are fewer than three reference
  points, the perspective sub-check returns distortion 0, and \<open>corrected\<close> holds exactly
  when the calibration is detected, has at least two reference points and the distortion
  limit is not negative.
\<close>

theorem perspective_without_ruler_spacing:
  assumes "markerType cal \<noteq> Ruler \<or> length (referencePoints cal) < 3"
  shows "distortion (perspective (runQualityChecks th img cal)) = Num 0
         \<and> (corrected (perspective (runQualityChecks th img cal))
              \<longleftrightarrow> detected cal \<and> 2 \<le> length (referencePoints cal)
                  \<and> 0 \<le> maxPerspectiveDistortion th)"
  using assms
  by (auto simp: runQualityChecks_def Let_def checkPerspective_def js_le_def math_round_def)

theorem perspective_without_ruler_spacing_witness:
  "markerType circleCalibration = Circle \<and> length (referencePoints circleCalibration) < 3
   \<and> distortion (perspective (runQualityChecks DEFAULT_THRESHOLDS sampleMask circleCalibration)) = Num 0
   \<and> corrected (perspective (runQualityChecks DEFAULT_THRESHOLDS sampleMask circleCalibration))"
proof -
  have h: "markerType circleCalibration \<noteq> Ruler \<or> length (referencePoints circleCalibration) < 3"
    by (simp add: circleCalibration_def)
  from perspective_without_ruler_spacing [OF h, of DEFAULT_THRESHOLDS sampleMask] h show ?thesis
    by (simp add: circleCalibration_def DEFAULT_THRESHOLDS_def)
qed

subsection \<open>Lighting of a dark image\<close>

lemma sum_take_bump:
  fixes h :: "nat list"
  shows "sum_list (take k (h[b := Suc (h ! b)]))
           = sum_list (take k h) + (if b < k \<and> b < length h then 1 else 0)"
proof (cases "b < k \<and> b < length h")
  case True
  then have "b < length (take k h)" by simp
  then have "sum_list ((take k h)[b := Suc (h ! b)])
               = sum_list (take k h) + Suc (h ! b) - take k h ! b"
    by (rule sum_list_update)
  with True show ?thesis by (simp add: take_update_swap)
next
  case False
  then have "length (take k h) \<le> b" by auto
  then have "(take k h)[b := Suc (h ! b)] = take k h" by (rule list_update_beyond)
  with False show ?thesis by (simp add: take_update_swap)
qed

lemma histogram_length:
  "length (fold (\<lambda>b h. h[b := h ! b + 1]) bs h) = length h"
  by (induction bs arbitrary: h) simp_all

lemma histogram_low_bins:
  fixes h :: "nat list"
  assumes "k \<le> length h"
  shows "sum_list (take k (fold (\<lambda>b h. h[b := h ! b + 1]) bs h))
           = sum_list (take k h) + length (filter (\<lambda>b. b < k) bs)"
  using assms
proof (induction bs arbitrary: h)
  case Nil
  then show ?case by simp
next
  case (Cons b bs)
  have "k \<le> length (h[b := h ! b + 1])" using Cons.prems by simp
  then have "sum_list (take k (fold (\<lambda>b h. h[b := h ! b + 1]) bs (h[b := h ! b + 1])))
               = sum_list (take k (h[b := h ! b + 1])) + length (filter (\<lambda>b. b < k) bs)"
    by (rule Cons.IH)
  with Cons.prems show ?case by (auto simp: sum_take_bump)
qed

lemma darkPixels_count:
  "sum_list (take 50 (brightnessHistogram bs)) = length (filter (\<lambda>b. b < 50) bs)"
  using histogram_low_bins [of 50 "replicate 256 0" bs]
  by (simp add: brightnessHistogram_def)

lemma fold_plus_nat: "fold (\<lambda>b a. a + b) xs (s::nat) = s + sum_list xs"
  by (induction xs arbitrary: s) simp_all

lemma sum_list_bright:
  "50 * length (filter (\<lambda>b. \<not> b < 50) bs) \<le> sum_list (bs :: nat list)"
  by (induction bs) auto

lemma dark_share:
  fixes bs :: "nat list"
  assumes "real (sum_list bs) / real (length bs) = 30" and "bs \<noteq> []"
  shows "0.3 < real (length (filter (\<lambda>b. b < 50) bs)) / real (length bs)"
proof -
  let ?n = "length bs" and ?d = "length (filter (\<lambda>b. b < 50) bs)"
  let ?u = "length (filter (\<lambda>b. \<not> b < 50) bs)"
  from assms(2) have n: "0 < ?n" by simp
  with assms(1) have "real (sum_list bs) = 30 * real ?n" by (simp add: field_simps)
  then have tot: "sum_list bs = 30 * ?n" by (metis of_nat_eq_iff of_nat_mult of_nat_numeral)
  have "?d + ?u = ?n" by (rule sum_length_filter_compl)
  moreover have "50 * ?u \<le> sum_list bs" by (rule sum_list_bright)
  ultimately have "2 * ?n \<le> 5 * ?d" using tot by linarith
  then have "2 * real ?n \<le> 5 * real ?d" by (metis of_nat_le_iff of_nat_mult of_nat_numeral)
  moreover from n have "0 < real ?n" by simp
  ultimately have "3 * real ?n < 10 * real ?d" by linarith
  with \<open>0 < real ?n\<close> show ?thesis by (simp add: field_simps)
qed

lemma js_div_Num_eq:
  "js_div (Num a) (Num b) = Num c \<Longrightarrow> b \<noteq> 0 \<and> a / b = c"
  by (auto simp: js_inf_def split: if_splits)

lemma dark_image_issues:
  assumes "avgBrightness img = Num 30"
  shows "''Image is too dark'' \<in> set (lightingIssues img)
         \<and> ''Significant shadows detected'' \<in> set (lightingIssues img)
         \<and> 2 \<le> length (lightingIssues img)"
proof -
  let ?bs = "brightnessList img"
  let ?n = "width img * height img"
  have len: "length ?bs = ?n" by (simp add: brightnessList_def)
  from assms have "js_div (Num (real (sum_list ?bs))) (Num (real ?n)) = Num 30"
    by (simp add: avgBrightness_def fold_plus_nat)
  then have nz: "real ?n \<noteq> 0" and avg: "real (sum_list ?bs) / real ?n = 30"
    using js_div_Num_eq by blast+
  from nz len have ne: "?bs \<noteq> []" by auto
  from dark_share [of ?bs] avg ne len
  have share: "0.3 < real (length (filter (\<lambda>b. b < 50) ?bs)) / real ?n" by simp
  have dark: "js_gt (js_div (Num (real (fold (\<lambda>b a. a + b) (take 50 (brightnessHistogram ?bs)) 0)))
                            (Num (real ?n))) (Num 0.3)"
    using share nz by (simp add: fold_plus_nat darkPixels_count js_gt_def)
  have low: "js_lt (avgBrightness img) (Num 50)" using assms by simp
  from dark low show ?thesis
    by (simp add: lightingIssues_def Let_def)
qed

subsection \<open>Evaluation on a grey image\<close>

lemma wf_darkSharpImage: "wf_image darkSharpImage"
  by (simp add: wf_image_def darkSharpImage_def grayImage_def)

lemma rgba_nth:
  "i < length vs \<Longrightarrow> k < 4 \<Longrightarrow>
     concat (map (\<lambda>v. [v, v, v, 255]) vs) ! (i * 4 + k) = [vs ! i, vs ! i, vs ! i, 255] ! k"
proof (induction vs arbitrary: i)
  case Nil
  then show ?case by simp
next
  case (Cons v vs)
  let ?rest = "concat (map (\<lambda>v. [v, v, v, 255]) vs)"
  have split: "concat (map (\<lambda>v. [v, v, v, 255]) (v # vs)) = [v, v, v, 255] @ ?rest"
    by simp
  show ?case
  proof (cases i)
    case 0
    with Cons.prems(2) have "([v, v, v, 255] @ ?rest) ! (i * 4 + k) = [v, v, v, 255] ! k"
      by (simp only: nth_append) simp
    with 0 show ?thesis by (simp only: split nth_Cons_0)
  next
    case (Suc j)
    with Cons.prems have j: "j < length vs" by simp
    have "i * 4 + k = length [v, v, v, 255] + (j * 4 + k)" using Suc by simp
    then have "([v, v, v, 255] @ ?rest) ! (i * 4 + k) = ?rest ! (j * 4 + k)"
      by (simp only: nth_append_length_plus)
    also have "\<dots> = [vs ! j, vs ! j, vs ! j, 255] ! k"
      using j Cons.prems(2) by (rule Cons.IH)
    finally show ?thesis using Suc by (simp only: split nth_Cons_Suc)
  qed
qed

lemma gray_grayImage:
  assumes "i < length vs"
  shows "grayAt (grayImage w h vs) i = real (unat (vs ! i))"
proof -
  from rgba_nth [OF assms, of 0] rgba_nth [OF assms, of 1] rgba_nth [OF assms, of 2]
  show ?thesis
    by (simp add: grayAt_def redAt_def greenAt_def blueAt_def grayImage_def algebra_simps)
qed

lemma brightnessList_darkSharpImage: "brightnessList darkSharpImage = [0, 100, 0, 0, 60, 100, 0, 0, 0, 100, 0, 0]"
  by (simp add: brightnessList_def brightnessAt_def darkSharpImage_def gray_grayImage
        upt_rec math_round_def)
     (simp add: grayImage_def)

lemma avgBrightness_darkSharpImage: "avgBrightness darkSharpImage = Num 30"
  using brightnessList_darkSharpImage by (simp add: avgBrightness_def) (simp add: darkSharpImage_def grayImage_def)

lemma size_darkSharpImage: "width darkSharpImage = 4" "height darkSharpImage = 3"
  by (simp_all add: darkSharpImage_def grayImage_def)

lemma grayAt_darkSharpImage:
  "i < 12 \<Longrightarrow> grayAt darkSharpImage i
      = real (unat ([0, 100, 0, 0, 60, 100, 0, 0, 0, 100, 0, 0 :: 8 word] ! i))"
  unfolding darkSharpImage_def by (rule gray_grayImage) simp

lemma laplacianAt_dark_left: "laplacianAt darkSharpImage 1 1 = - 140"
  by (simp add: laplacianAt_def kernel_def size_darkSharpImage grayAt_darkSharpImage)

lemma laplacianAt_dark_right: "laplacianAt darkSharpImage 2 1 = 100"
  by (simp add: laplacianAt_def kernel_def size_darkSharpImage grayAt_darkSharpImage)

lemma upt12: "[0 ..< 12] = [0, 1, 2, 3, 4, 5, 6, 7, 8, 9, 10, 11 :: nat]"
  by (simp add: upt_rec)

lemma laplacian_darkSharpImage: "laplacian darkSharpImage = [0, 0, 0, 0, 0, - 140, 100, 0, 0, 0, 0, 0]"
  using laplacianAt_dark_left laplacianAt_dark_right by (simp add: laplacian_def size_darkSharpImage Let_def upt12)

lemma blurPassed_darkSharpImage: "blurPassed (checkBlur DEFAULT_THRESHOLDS darkSharpImage)"
  by (simp add: checkBlur_def laplacian_darkSharpImage Let_def js_sub_def js_min_def js_ge_def js_le_def
                DEFAULT_THRESHOLDS_def)

text \<open>
  Claim C4. The verdict \<open>passed\<close> is the conjunction of the blur verdict, the lighting
  verdict, \<open>detected\<close>, the confidence threshold and \<open>corrected\<close>. An image of average
  brightness 30 carries the issue "Image is too dark", fails the lighting check and so fails
  overall, whatever the other checks say.
\<close>

theorem runQualityChecks_aggregate:
  "(passed (runQualityChecks th img cal) \<longleftrightarrow>
      blurPassed (blur (runQualityChecks th img cal))
      \<and> lightingPassed (lighting (runQualityChecks th img cal))
      \<and> detected cal
      \<and> minCalibrationConfidence th \<le> confidence cal
      \<and> corrected (perspective (runQualityChecks th img cal)))
   \<and> (wf_image img \<and> avgBrightness img = Num 30 \<longrightarrow>
        ''Image is too dark'' \<in> set (issues (lighting (runQualityChecks th img cal)))
        \<and> \<not> lightingPassed (lighting (runQualityChecks th img cal))
        \<and> \<not> passed (runQualityChecks th img cal))"
proof (intro conjI impI)
  show "passed (runQualityChecks th img cal) \<longleftrightarrow>
      blurPassed (blur (runQualityChecks th img cal))
      \<and> lightingPassed (lighting (runQualityChecks th img cal))
      \<and> detected cal
      \<and> minCalibrationConfidence th \<le> confidence cal
      \<and> corrected (perspective (runQualityChecks th img cal))"
    by (simp add: runQualityChecks_def Let_def)
next
  assume h: "wf_image img \<and> avgBrightness img = Num 30"
  then have i: "''Image is too dark'' \<in> set (lightingIssues img)"
    and l: "2 \<le> length (lightingIssues img)"
    using dark_image_issues [of img] by simp_all
  from i show "''Image is too dark'' \<in> set (issues (lighting (runQualityChecks th img cal)))"
    by (simp add: runQualityChecks_def checkLighting_def Let_def)
  from l show np: "\<not> lightingPassed (lighting (runQualityChecks th img cal))"
    by (simp add: runQualityChecks_def checkLighting_def Let_def)
  from l show "\<not> passed (runQualityChecks th img cal)"
    by (simp add: runQualityChecks_def checkLighting_def Let_def)
qed

theorem runQualityChecks_aggregate_witness:
  "wf_image darkSharpImage \<and> avgBrightness darkSharpImage = Num 30
   \<and> blurPassed (blur (runQualityChecks DEFAULT_THRESHOLDS darkSharpImage circleCalibration))
   \<and> detected circleCalibration
   \<and> minCalibrationConfidence DEFAULT_THRESHOLDS \<le> confidence circleCalibration
   \<and> corrected (perspective (runQualityChecks DEFAULT_THRESHOLDS darkSharpImage circleCalibration))
   \<and> ''Image is too dark''
        \<in> set (issues (lighting (runQualityChecks DEFAULT_THRESHOLDS darkSharpImage circleCalibration)))
   \<and> \<not> passed (runQualityChecks DEFAULT_THRESHOLDS darkSharpImage circleCalibration)"
proof -
  have h: "wf_image darkSharpImage \<and> avgBrightness darkSharpImage = Num 30"
    using wf_darkSharpImage avgBrightness_darkSharpImage by simp
  have b: "blurPassed (blur (runQualityChecks DEFAULT_THRESHOLDS darkSharpImage circleCalibration))"
    using blurPassed_darkSharpImage by (simp add: runQualityChecks_def Let_def)
  have c: "detected circleCalibration
           \<and> minCalibrationConfidence DEFAULT_THRESHOLDS \<le> confidence circleCalibration"
    by (simp add: circleCalibration_def DEFAULT_THRESHOLDS_def)
  have p: "corrected (perspective (runQualityChecks DEFAULT_THRESHOLDS darkSharpImage circleCalibration))"
    by (simp add: runQualityChecks_def Let_def checkPerspective_def circleCalibration_def
                  DEFAULT_THRESHOLDS_def js_le_def)
  note d = runQualityChecks_aggregate [of DEFAULT_THRESHOLDS darkSharpImage circleCalibration,
               THEN conjunct2, rule_format, OF h]
  from h b c p d show ?thesis by (simp only: simp_thms)
qed

subsection \<open>Blur of a uniform image\<close>

lemma pixel_index_bound:
  fixes x y w h :: nat
  assumes "y < h" and "x < w"
  shows "y * w + x < w * h"
proof -
  from assms(2) have "y * w + x < Suc y * w" by simp
  also from assms(1) have "Suc y * w \<le> h * w" by (intro mult_le_mono1) simp
  finally show ?thesis by (simp add: mult.commute)
qed

lemma uniform_gray:
  assumes "uniformImage img" and "i < width img * height img"
  shows "grayAt img i = grayAt img 0"
proof -
  from assms have "data img ! (i * 4) = data img ! 0 \<and> data img ! (i * 4 + 1) = data img ! 1
      \<and> data img ! (i * 4 + 2) = data img ! 2"
    by (simp add: uniformImage_def list_all_iff)
  then show ?thesis
    by (simp add: grayAt_def redAt_def greenAt_def blueAt_def numeral_2_eq_2)
qed

lemma fold_weighted_const:
  fixes f k :: "'a \<Rightarrow> real"
  assumes "\<forall>p \<in> set ps. f p = c"
  shows "fold (\<lambda>p s. s + f p * k p) ps a = a + c * (\<Sum>p \<leftarrow> ps. k p)"
  using assms by (induction ps arbitrary: a) (simp_all add: algebra_simps)

lemma kernel_sum: "(\<Sum>p \<leftarrow> List.product [0, 1, 2] [0, 1, 2]. kernel ! fst p ! snd p) = 0"
  by (simp add: kernel_def)

lemma laplacianAt_uniform:
  assumes u: "uniformImage img" and "1 \<le> y" "y + 1 < height img" "1 \<le> x" "x + 1 < width img"
  shows "laplacianAt img x y = 0"
proof -
  let ?f = "\<lambda>p. grayAt img ((y + fst p - 1) * width img + (x + snd p - 1))"
  have "?f p = grayAt img 0" if "p \<in> set (List.product [0, 1, 2] [0, 1, 2])" for p
  proof -
    from that have "fst p \<le> 2" "snd p \<le> 2" by auto
    with assms(2-5) have "y + fst p - 1 < height img" "x + snd p - 1 < width img"
      by linarith+
    then have "(y + fst p - 1) * width img + (x + snd p - 1) < width img * height img"
      by (rule pixel_index_bound)
    with u show ?thesis by (rule uniform_gray)
  qed
  then have "fold (\<lambda>p s. s + ?f p * (kernel ! fst p ! snd p)) (List.product [0, 1, 2] [0, 1, 2]) 0
               = 0 + grayAt img 0 * (\<Sum>p \<leftarrow> List.product [0, 1, 2] [0, 1, 2]. kernel ! fst p ! snd p)"
    by (intro fold_weighted_const) blast
  then show ?thesis
    by (simp only: laplacianAt_def kernel_sum case_prod_beta) simp
qed

lemma laplacian_uniform:
  assumes "uniformImage img"
  shows "filter (\<lambda>v. v \<noteq> 0) (laplacian img) = []"
  using assms by (auto simp: laplacian_def Let_def filter_empty_conv laplacianAt_uniform)

text \<open>
  Claim C10. On a uniform image every Laplacian response is zero, so the count of non-zero
  responses is 0, both divisions by it are 0/0, and \<^verbatim>\<open>checkBlur\<close> returns the score
  \<^verbatim>\<open>NaN\<close> with \<open>passed = false\<close>.
\<close>

theorem checkBlur_uniform_image_nan:
  assumes "wf_image img" and "uniformImage img"
  shows "length (filter (\<lambda>v. v \<noteq> 0) (laplacian img)) = 0
         \<and> blurScore (checkBlur th img) = NaN
         \<and> \<not> blurPassed (checkBlur th img)"
  using laplacian_uniform [OF assms(2)]
  by (simp add: checkBlur_def Let_def js_inf_def js_min_def js_ge_def js_le_def)

lemma flat_uniform: "uniformImage flatImage"
  by (simp add: uniformImage_def flatImage_def grayImage_def upt_rec)

theorem checkBlur_uniform_image_nan_witness:
  "wf_image flatImage \<and> uniformImage flatImage
   \<and> blurScore (checkBlur DEFAULT_THRESHOLDS flatImage) = NaN
   \<and> \<not> blurPassed (checkBlur DEFAULT_THRESHOLDS flatImage)"
proof -
  have w: "wf_image flatImage" by (simp add: wf_image_def flatImage_def grayImage_def)
  from checkBlur_uniform_image_nan [OF w flat_uniform, of DEFAULT_THRESHOLDS] w flat_uniform
  show ?thesis by simp
qed

section \<open>Properties of the calibration detectors\<close>

subsection \<open>Scale of the ruler and circle detectors\<close>



















lemma wellFormedResult_ruler: "wellFormedResult (detectRulerFrom lines img)"
  by (simp add: wellFormedResult_def detectRulerFrom_def Let_def createFailedCalibration_def)

lemma wellFormedResult_circle: "wellFormedResult (detectCircleFrom edgePoints w h)"
  by (simp add: wellFormedResult_def detectCircleFrom_def Let_def createFailedCalibration_def)




subsection \<open>A detected circle, a detected ruler and a grid of scale 0\<close>
































end
